theory Spec2Isabelle
  imports Complex_Main
begin

section \<open>JavaScript numbers\<close>

text \<open>
  The services compute with JavaScript numbers, which are doubles. A number is modelled as
  a rational or one of the three special values of IEEE arithmetic. An operation on finite
  numbers overflows to an infinity as it does on doubles; below that, its result is kept
  exact: rounding to the nearest double is not modelled, nor is the sign of zero (a zero
  divisor is taken as \<open>+0\<close>, which is what \<open>x - x\<close> yields).
\<close>

datatype jsnum = Fin rat | PosInf | NegInf | NaN

text \<open>
  The magnitude from which a result rounds to an infinity: halfway between the largest
  double and \<open>2 ^ 1024\<close>.
\<close>

definition overflow_threshold :: rat where
  "overflow_threshold = 2 ^ 1024 - 2 ^ 970"

definition finite_result :: "rat \<Rightarrow> jsnum" where
  "finite_result x =
     (if overflow_threshold \<le> x then PosInf
      else if x \<le> - overflow_threshold then NegInf
      else Fin x)"

definition num_of_int :: "int \<Rightarrow> jsnum" where
  "num_of_int i = Fin (of_int i)"

definition num_of_nat :: "nat \<Rightarrow> jsnum" where
  "num_of_nat n = Fin (of_nat n)"

fun js_neg :: "jsnum \<Rightarrow> jsnum" where
  "js_neg (Fin a) = Fin (- a)"
| "js_neg PosInf = NegInf"
| "js_neg NegInf = PosInf"
| "js_neg NaN = NaN"

fun js_add :: "jsnum \<Rightarrow> jsnum \<Rightarrow> jsnum" where
  "js_add (Fin a) (Fin b) = finite_result (a + b)"
| "js_add (Fin a) PosInf = PosInf"
| "js_add (Fin a) NegInf = NegInf"
| "js_add PosInf (Fin b) = PosInf"
| "js_add PosInf PosInf = PosInf"
| "js_add NegInf (Fin b) = NegInf"
| "js_add NegInf NegInf = NegInf"
| "js_add x y = NaN"

definition js_sub :: "jsnum \<Rightarrow> jsnum \<Rightarrow> jsnum" where
  "js_sub x y = js_add x (js_neg y)"

text \<open>The sign of a number as \<open>-1\<close>, \<open>0\<close> or \<open>1\<close>; \<open>NaN\<close> has none.\<close>

fun js_sign :: "jsnum \<Rightarrow> int option" where
  "js_sign (Fin a) = Some (if a < 0 then - 1 else if a = 0 then 0 else 1)"
| "js_sign PosInf = Some 1"
| "js_sign NegInf = Some (- 1)"
| "js_sign NaN = None"

definition signed_inf :: "int \<Rightarrow> jsnum" where
  "signed_inf s = (if s < 0 then NegInf else if s = 0 then NaN else PosInf)"

fun js_mul :: "jsnum \<Rightarrow> jsnum \<Rightarrow> jsnum" where
  "js_mul (Fin a) (Fin b) = finite_result (a * b)"
| "js_mul x y =
     (case (js_sign x, js_sign y) of
        (Some s, Some t) \<Rightarrow> signed_inf (s * t)
      | _ \<Rightarrow> NaN)"

text \<open>
  Division never raises: a finite nonzero number over zero is an infinity of the
  dividend's sign, zero over zero is \<open>NaN\<close>, a finite number over an infinity is zero.
\<close>

fun js_div :: "jsnum \<Rightarrow> jsnum \<Rightarrow> jsnum" where
  "js_div (Fin a) (Fin b) =
     (if b = 0 then (if a = 0 then NaN else if a < 0 then NegInf else PosInf)
      else finite_result (a / b))"
| "js_div (Fin a) PosInf = Fin 0"
| "js_div (Fin a) NegInf = Fin 0"
| "js_div PosInf (Fin b) = (if b < 0 then NegInf else PosInf)"
| "js_div NegInf (Fin b) = (if b < 0 then PosInf else NegInf)"
| "js_div x y = NaN"

text \<open>The relational operators are false as soon as one operand is \<open>NaN\<close>.\<close>

fun js_lt :: "jsnum \<Rightarrow> jsnum \<Rightarrow> bool" where
  "js_lt (Fin a) (Fin b) = (a < b)"
| "js_lt (Fin a) PosInf = True"
| "js_lt NegInf (Fin b) = True"
| "js_lt NegInf PosInf = True"
| "js_lt x y = False"

definition js_gt :: "jsnum \<Rightarrow> jsnum \<Rightarrow> bool" where
  "js_gt x y = js_lt y x"

text \<open>\<open>Math.min\<close> and \<open>Math.max\<close> of two numbers: \<open>NaN\<close> if either is.\<close>

definition Math_min :: "jsnum \<Rightarrow> jsnum \<Rightarrow> jsnum" where
  "Math_min x y = (if x = NaN \<or> y = NaN then NaN else if js_lt y x then y else x)"

definition Math_max :: "jsnum \<Rightarrow> jsnum \<Rightarrow> jsnum" where
  "Math_max x y = (if x = NaN \<or> y = NaN then NaN else if js_lt x y then y else x)"

section \<open>Health classifier\<close>

datatype health = Excellent | Good | Fair | Poor

text \<open>
  \<open>SarosApiService.calculateHealth\<close>: bin ids are integers, so the three differences
  and their minimum are exact; the ratio is a JavaScript division, unguarded.
\<close>

definition SarosApiService_calculateHealth :: "int \<Rightarrow> int \<Rightarrow> int \<Rightarrow> health" where
  "SarosApiService_calculateHealth activeBin lowerBin upperBin =
     (let range = upperBin - lowerBin;
          distanceFromLower = activeBin - lowerBin;
          distanceFromUpper = upperBin - activeBin;
          minDistance = min distanceFromLower distanceFromUpper;
          healthRatio = js_mul (js_div (num_of_int minDistance) (num_of_int range)) (Fin 100)
      in if js_gt healthRatio (Fin 30) then Excellent
         else if js_gt healthRatio (Fin 20) then Good
         else if js_gt healthRatio (Fin 10) then Fair
         else Poor)"

text \<open>\<open>SarosSdkService.calculateHealth\<close>: the same, behind a guard on a zero range.\<close>

definition SarosSdkService_calculateHealth :: "int \<Rightarrow> int \<Rightarrow> int \<Rightarrow> health" where
  "SarosSdkService_calculateHealth activeBin lowerBin upperBin =
     (let range = upperBin - lowerBin
      in if range = 0 then Poor
         else
           (let distanceFromLower = activeBin - lowerBin;
                distanceFromUpper = upperBin - activeBin;
                minDistance = min distanceFromLower distanceFromUpper;
                healthRatio = js_mul (js_div (num_of_int minDistance) (num_of_int range)) (Fin 100)
            in if js_gt healthRatio (Fin 30) then Excellent
               else if js_gt healthRatio (Fin 20) then Good
               else if js_gt healthRatio (Fin 10) then Fair
               else Poor))"

text \<open>The grades in increasing order: Poor, Fair, Good, Excellent.\<close>

fun grade_rank :: "health \<Rightarrow> nat" where
  "grade_rank Poor = 0"
| "grade_rank Fair = 1"
| "grade_rank Good = 2"
| "grade_rank Excellent = 3"


section \<open>Run-time values, template literals, exceptions\<close>

text \<open>
  TypeScript's types are erased when the program runs, and the positions come from JSON.
  Where the source calls a method on a field or reads a property of it, the field is
  modelled as a run-time value that need not be a number. A string is represented by the
  number it converts to (\<open>ToNumber\<close>), which is all the comparisons look at.
\<close>

datatype jsval = JNumber jsnum | JString jsnum | JNull | JUndefined

fun ToNumber :: "jsval \<Rightarrow> jsnum" where
  "ToNumber (JNumber n) = n"
| "ToNumber (JString n) = n"
| "ToNumber JNull = Fin 0"
| "ToNumber JUndefined = NaN"

text \<open>
  A property read on an object literal finds the literal's own properties, then those
  every object inherits from \<open>Object.prototype\<close>; for any other name the read gives
  \<open>undefined\<close>.
\<close>

datatype 'a property = Own 'a | Inherited | Absent

definition Object_prototype_properties :: "string list" where
  "Object_prototype_properties =
     [''constructor'', ''__proto__'', ''hasOwnProperty'', ''isPrototypeOf'',
      ''propertyIsEnumerable'', ''toLocaleString'', ''toString'', ''valueOf'',
      ''__defineGetter__'', ''__defineSetter__'', ''__lookupGetter__'', ''__lookupSetter__'']"

text \<open>\<open>toUpperCase\<close>, on ASCII letters.\<close>

definition toUpperCase_char :: "char \<Rightarrow> char" where
  "toUpperCase_char c =
     (let n = (of_char c :: nat) in if 97 \<le> n \<and> n \<le> 122 then char_of (n - 32) else c)"

text \<open>
  What \<open>getTokenSymbol\<close> returns: a symbol, or, for a mint address that is the name of
  an inherited property, that inherited member.
\<close>

datatype token_symbol = Symbol string | Inherited_member string

text \<open>
  A template literal is kept as the list of its literal chunks and interpolated values;
  the rendering of numbers as text is not modelled. \<open>Fixed k n\<close> stands for
  \<open>n.toFixed(k)\<close>.
\<close>

datatype piece = Str string | Whole int | Fixed nat jsnum | Sym token_symbol

type_synonym template = "piece list"

text \<open>
  Exceptions. A \<open>TypeError\<close> carries the name of the property or method whose access
  failed; \<open>Error prefix cause\<close> is \<open>new Error(prefix + cause.message)\<close>.
\<close>

datatype js_error = TypeError string | Error string js_error

text \<open>Only a number has the method \<open>toFixed\<close>.\<close>

fun toFixed :: "nat \<Rightarrow> jsval \<Rightarrow> js_error + piece" where
  "toFixed k (JNumber n) = Inr (Fixed k n)"
| "toFixed k v = Inl (TypeError ''toFixed'')"

section \<open>Data model\<close>

text \<open>
  The interfaces of \<open>types\<close>. Fields named \<open>id\<close>, \<open>min\<close>, \<open>max\<close>, \<open>value\<close> and
  \<open>type\<close> are renamed, as these names are taken, and so are the two amounts of
  \<open>distribution\<close>, which bear the names of two fields of the position. The fields \<open>lastRebalance\<close> and
  \<open>rawPosition\<close> of a position, which no computation reads, are left out.
\<close>

record BinDistribution =
  dist_id :: int
  binId :: int
  price :: jsnum
  liquidityX :: jsnum
  liquidityY :: jsnum
  feeAPR :: jsnum
  percentage :: "jsnum option"

record BinRange =
  lower :: jsnum
  upper :: jsnum
  active :: jsnum

record Distribution =
  amountA :: jsnum
  amountB :: jsnum

record PositionPriceRange =
  price_min :: jsnum
  price_max :: jsnum
  price_current :: jsnum

text \<open>
  A position, with the type \<open>'n\<close> of the two fields on which \<open>toFixed\<close> is called and
  the type \<open>'d\<close> of the bin distribution as parameters: numbers and a list for a position
  as declared, run-time values for a position as it may arrive.
\<close>

record ('n, 'd) Position =
  position_id :: string
  pair :: template
  pairName :: template
  tokenA :: token_symbol
  tokenB :: token_symbol
  tokenX :: token_symbol
  tokenY :: token_symbol
  liquidity :: jsnum
  totalLiquidity :: jsnum
  position_value :: jsnum
  currentValue :: jsnum
  change24h :: jsnum
  apy :: jsnum
  currentAPY :: jsnum
  apr :: jsnum
  feesEarned :: jsnum
  fees24h :: jsnum
  feesTotal :: jsnum
  unclaimedFees :: 'n
  pnl :: jsnum
  pnlPercentage :: 'n
  binRange :: BinRange
  lowerBinId :: int
  upperBinId :: int
  distribution :: Distribution
  priceRange :: PositionPriceRange
  strategy :: string
  health :: health
  binCount :: int
  binDistribution :: 'd
  impermanentLoss :: "jsnum option"

type_synonym TypedPosition = "(jsnum, BinDistribution list) Position"

text \<open>
  At run time the distribution may be \<open>null\<close> or \<open>undefined\<close> (\<open>None\<close>), and so may each
  of its elements.
\<close>

type_synonym RuntimePosition = "(jsval, BinDistribution option list option) Position"

datatype rec_type = Rebalance | Expand | Narrow | Exit

datatype priority = High | Medium | Low

datatype exec_type = Shift_up | Shift_down | Add_liquidity

record ExpectedImpact =
  feesIncrease :: jsnum
  ilReduction :: jsnum
  confidenceScore :: jsnum

record PriceRange =
  range_min :: jsnum
  range_max :: jsnum
  range_lowerBinId :: "int option"
  range_upperBinId :: "int option"

record ExecutionParams =
  exec_type :: exec_type
  currentRange :: "PriceRange option"
  suggestedRange :: "PriceRange option"

record RebalanceRecommendation =
  rec_id :: "template option"
  positionId :: string
  rec_type :: rec_type
  priority :: priority
  reason :: template
  expectedImpact :: ExpectedImpact
  suggestedAction :: template
  executionParams :: "ExecutionParams option"

section \<open>Recommendation engine of SarosApiService\<close>

text \<open>
  \<open>findActiveBin\<close>. Reading \<open>length\<close> of a missing distribution raises, and so does
  the callback of \<open>filter\<close> on a missing element; \<open>filter\<close> visits every element.
\<close>

fun filter_active :: "BinDistribution option list \<Rightarrow> js_error + BinDistribution list" where
  "filter_active [] = Inr []"
| "filter_active (None # bs) = Inl (TypeError ''liquidityX'')"
| "filter_active (Some b # bs) =
     (case filter_active bs of
        Inl e \<Rightarrow> Inl e
      | Inr rest \<Rightarrow>
          Inr (if js_gt (liquidityX b) (Fin 0) \<and> js_gt (liquidityY b) (Fin 0)
               then b # rest else rest))"

definition findActiveBin :: "BinDistribution option list option \<Rightarrow> js_error + int" where
  "findActiveBin distribution' =
     (case distribution' of
        None \<Rightarrow> Inl (TypeError ''length'')
      | Some bins \<Rightarrow>
          if length bins = 0 then Inr 0
          else
            (case filter_active bins of
               Inl e \<Rightarrow> Inl e
             | Inr activeBins \<Rightarrow>
                 (case activeBins of
                    b # _ \<Rightarrow> Inr (binId b)
                  | [] \<Rightarrow>
                      (case bins ! (length bins div 2) of
                         None \<Rightarrow> Inl (TypeError ''binId'')
                       | Some b \<Rightarrow> Inr (binId b)))))"

text \<open>
  The state of one call: the array \<open>recommendations\<close>, the number of times
  \<open>Date.now()\<close> has been read, and what was written to the console. The clock of a call
  is the sequence of the values its successive readings of \<open>Date.now()\<close> return.
\<close>

record gen_state =
  recommendations :: "RebalanceRecommendation list"
  clock_reads :: nat
  console :: "(template \<times> js_error) list"

type_synonym clock = "nat \<Rightarrow> int"

definition Date_now :: "clock \<Rightarrow> gen_state \<Rightarrow> int" where
  "Date_now clk s = clk (clock_reads s)"

definition tick :: "gen_state \<Rightarrow> gen_state" where
  "tick s = s\<lparr>clock_reads := clock_reads s + 1\<rparr>"

definition push :: "RebalanceRecommendation \<Rightarrow> gen_state \<Rightarrow> gen_state" where
  "push r s = s\<lparr>recommendations := recommendations s @ [r]\<rparr>"

text \<open>
  The three \<open>if\<close> statements of the loop body, one definition each. A statement returns
  the state it leaves and the exception it raised, if any. The fields of an object
  literal are evaluated in order, so \<open>Date.now()\<close> has been read when \<open>toFixed\<close> raises.
\<close>

definition out_of_range_rule ::
  "clock \<Rightarrow> RuntimePosition \<Rightarrow> int \<Rightarrow> gen_state \<Rightarrow> gen_state \<times> js_error option" where
  "out_of_range_rule clk position activeBinId s =
     (let isOutOfRange = activeBinId < lowerBinId position \<or> activeBinId > upperBinId position
      in if isOutOfRange then
           (push
              \<lparr>rec_id = Some [Str ''rebalance_'', Str (position_id position), Str ''_'',
                              Whole (Date_now clk s)],
               positionId = position_id position,
               rec_type = Rebalance,
               priority = High,
               reason = [Str ''Position is out of active range. Current active bin: '',
                         Whole activeBinId, Str '', Your range: '',
                         Whole (lowerBinId position), Str ''-'', Whole (upperBinId position)],
               expectedImpact = \<lparr>feesIncrease = Fin 5, ilReduction = Fin 2,
                                 confidenceScore = Fin (85 / 100)\<rparr>,
               suggestedAction = [Str ''Rebalance to include active bin''],
               executionParams = Some
                 \<lparr>exec_type = Shift_up, currentRange = None,
                  suggestedRange = Some
                    \<lparr>range_min = num_of_int (activeBinId - 10),
                     range_max = num_of_int (activeBinId + 10),
                     range_lowerBinId = Some (activeBinId - 10),
                     range_upperBinId = Some (activeBinId + 10)\<rparr>\<rparr>\<rparr>
              (tick s), None)
         else (s, None))"

definition fees_rule ::
  "clock \<Rightarrow> RuntimePosition \<Rightarrow> gen_state \<Rightarrow> gen_state \<times> js_error option" where
  "fees_rule clk position s =
     (if js_gt (ToNumber (unclaimedFees position)) (Fin 50) then
        (case toFixed 2 (unclaimedFees position) of
           Inl e \<Rightarrow> (tick s, Some e)
         | Inr fees \<Rightarrow>
             (push
                \<lparr>rec_id = Some [Str ''fees_'', Str (position_id position), Str ''_'',
                                Whole (Date_now clk s)],
                 positionId = position_id position,
                 rec_type = Expand,
                 priority = Medium,
                 reason = [Str ''High unclaimed fees: $'', fees],
                 expectedImpact = \<lparr>feesIncrease = Fin (25 / 10), ilReduction = Fin (5 / 10),
                                   confidenceScore = Fin (75 / 100)\<rparr>,
                 suggestedAction = [Str ''Consider compounding fees back into position''],
                 executionParams = Some
                   \<lparr>exec_type = Add_liquidity, currentRange = None, suggestedRange = None\<rparr>\<rparr>
                (tick s), None))
      else (s, None))"

definition loss_rule ::
  "clock \<Rightarrow> RuntimePosition \<Rightarrow> gen_state \<Rightarrow> gen_state \<times> js_error option" where
  "loss_rule clk position s =
     (if js_lt (ToNumber (pnlPercentage position)) (Fin (- 10)) then
        (case toFixed 2 (pnlPercentage position) of
           Inl e \<Rightarrow> (tick s, Some e)
         | Inr loss \<Rightarrow>
             (push
                \<lparr>rec_id = Some [Str ''close_'', Str (position_id position), Str ''_'',
                                Whole (Date_now clk s)],
                 positionId = position_id position,
                 rec_type = Exit,
                 priority = High,
                 reason = [Str ''Significant loss: '', loss, Str ''%''],
                 expectedImpact = \<lparr>feesIncrease = Fin 0, ilReduction = Fin 10,
                                   confidenceScore = Fin (9 / 10)\<rparr>,
                 suggestedAction =
                   [Str ''Consider closing position and reallocating capital''],
                 executionParams = Some
                   \<lparr>exec_type = Shift_down, currentRange = None, suggestedRange = None\<rparr>\<rparr>
                (tick s), None))
      else (s, None))"

text \<open>
  The body of the \<open>try\<close> block, on an element of the array: an exception ends it where
  it is raised. An element that is \<open>null\<close> or \<open>undefined\<close> (\<open>None\<close>) raises at once, on
  reading \<open>binDistribution\<close>.
\<close>

definition try_block ::
  "clock \<Rightarrow> RuntimePosition option \<Rightarrow> gen_state \<Rightarrow> gen_state \<times> js_error option" where
  "try_block clk element s =
     (case element of
        None \<Rightarrow> (s, Some (TypeError ''binDistribution''))
      | Some position \<Rightarrow>
          (case findActiveBin (binDistribution position) of
             Inl e \<Rightarrow> (s, Some e)
           | Inr activeBinId \<Rightarrow>
               (case out_of_range_rule clk position activeBinId s of
                  (s1, Some e) \<Rightarrow> (s1, Some e)
                | (s1, None) \<Rightarrow>
                    (case fees_rule clk position s1 of
                       (s2, Some e) \<Rightarrow> (s2, Some e)
                     | (s2, None) \<Rightarrow> loss_rule clk position s2))))"

text \<open>
  The \<open>catch\<close> block logs the exception with the position's id. It reads \<open>id\<close> from
  the element, so on a \<open>null\<close> or \<open>undefined\<close> element the handler itself raises.
\<close>

definition log_entry :: "RuntimePosition \<Rightarrow> js_error \<Rightarrow> template \<times> js_error" where
  "log_entry position e =
     ([Str ''Error analyzing position '', Str (position_id position), Str '':''], e)"

definition catch_block ::
  "RuntimePosition option \<Rightarrow> js_error \<Rightarrow> gen_state \<Rightarrow> js_error + gen_state" where
  "catch_block element e s =
     (case element of
        None \<Rightarrow> Inl (TypeError ''id'')
      | Some position \<Rightarrow> Inr (s\<lparr>console := console s @ [log_entry position e]\<rparr>))"

text \<open>
  The loop. What the handler raises is caught by nothing: it ends the loop and the call.
\<close>

fun for_positions ::
  "clock \<Rightarrow> RuntimePosition option list \<Rightarrow> gen_state \<Rightarrow> js_error + gen_state" where
  "for_positions clk [] s = Inr s"
| "for_positions clk (element # rest) s =
     (case try_block clk element s of
        (s', None) \<Rightarrow> for_positions clk rest s'
      | (s', Some e) \<Rightarrow>
          (case catch_block element e s' of
             Inl e' \<Rightarrow> Inl e'
           | Inr s'' \<Rightarrow> for_positions clk rest s''))"

definition initial_state :: gen_state where
  "initial_state = \<lparr>recommendations = [], clock_reads = 0, console = []\<rparr>"

text \<open>
  The result is the value the returned promise resolves to, or the exception it is
  rejected with.
\<close>

definition SarosApiService_generateRebalanceRecommendations ::
  "clock \<Rightarrow> RuntimePosition option list \<Rightarrow> js_error + RebalanceRecommendation list" where
  "SarosApiService_generateRebalanceRecommendations clk positions =
     (case for_positions clk positions initial_state of
        Inl e \<Rightarrow> Inl e
      | Inr s \<Rightarrow> Inr (recommendations s))"

text \<open>
  What the \<open>try\<close> block pushes for a position object when it starts from the empty
  array, that is, when the position is alone in the input.
\<close>

definition pushed_alone :: "clock \<Rightarrow> RuntimePosition \<Rightarrow> RebalanceRecommendation list" where
  "pushed_alone clk position = recommendations (fst (try_block clk (Some position) initial_state))"

text \<open>A recommendation without its \<open>id\<close>, the one field made from the clock.\<close>

definition without_id :: "RebalanceRecommendation \<Rightarrow> RebalanceRecommendation" where
  "without_id r = r\<lparr>rec_id := None\<rparr>"

section \<open>Recommendation engine of RealSarosService\<close>

text \<open>
  The body of the loop on a position as declared: \<open>None\<close> is the \<open>continue\<close> of the
  last branch. Nothing in it raises on such a position, so the \<open>catch\<close> block of this
  loop is not reached. The recommendations of this service carry no \<open>id\<close>.
\<close>

definition price_recommendation :: "TypedPosition \<Rightarrow> RebalanceRecommendation option" where
  "price_recommendation position =
     (let current = price_current (priceRange position);
          min' = price_min (priceRange position);
          max' = price_max (priceRange position);
          rangeUtilization = js_div (js_sub current min') (js_sub max' min')
      in if js_lt rangeUtilization (Fin (1 / 10)) then
           Some
             \<lparr>rec_id = None,
              positionId = position_id position,
              rec_type = Rebalance,
              priority = High,
              reason = [Str ''Price near lower bound - consider shifting range up''],
              expectedImpact = \<lparr>feesIncrease = Fin (4 / 10), ilReduction = Fin (2 / 10),
                                confidenceScore = Fin (85 / 100)\<rparr>,
              suggestedAction =
                [Str ''Shift range up to '', Fixed 2 (js_mul current (Fin (95 / 100))),
                 Str '' - '', Fixed 2 (js_mul current (Fin (115 / 100)))],
              executionParams = Some
                \<lparr>exec_type = Shift_up,
                 currentRange = Some
                   \<lparr>range_min = min', range_max = max',
                    range_lowerBinId = None, range_upperBinId = None\<rparr>,
                 suggestedRange = Some
                   \<lparr>range_min = js_mul current (Fin (95 / 100)),
                    range_max = js_mul current (Fin (115 / 100)),
                    range_lowerBinId = None, range_upperBinId = None\<rparr>\<rparr>\<rparr>
         else if js_gt rangeUtilization (Fin (9 / 10)) then
           Some
             \<lparr>rec_id = None,
              positionId = position_id position,
              rec_type = Rebalance,
              priority = High,
              reason = [Str ''Price near upper bound - consider shifting range down''],
              expectedImpact = \<lparr>feesIncrease = Fin (4 / 10), ilReduction = Fin (2 / 10),
                                confidenceScore = Fin (85 / 100)\<rparr>,
              suggestedAction =
                [Str ''Shift range down to '', Fixed 2 (js_mul current (Fin (85 / 100))),
                 Str '' - '', Fixed 2 (js_mul current (Fin (105 / 100)))],
              executionParams = Some
                \<lparr>exec_type = Shift_down,
                 currentRange = Some
                   \<lparr>range_min = min', range_max = max',
                    range_lowerBinId = None, range_upperBinId = None\<rparr>,
                 suggestedRange = Some
                   \<lparr>range_min = js_mul current (Fin (85 / 100)),
                    range_max = js_mul current (Fin (105 / 100)),
                    range_lowerBinId = None, range_upperBinId = None\<rparr>\<rparr>\<rparr>
         else if js_lt rangeUtilization (Fin (2 / 10)) \<or> js_gt rangeUtilization (Fin (8 / 10)) then
           Some
             \<lparr>rec_id = None,
              positionId = position_id position,
              rec_type = Expand,
              priority = Medium,
              reason = [Str ''Consider adding liquidity to active bins''],
              expectedImpact = \<lparr>feesIncrease = Fin (2 / 10), ilReduction = Fin (1 / 10),
                                confidenceScore = Fin (7 / 10)\<rparr>,
              suggestedAction = [Str ''Add liquidity to bins closer to current price''],
              executionParams = None\<rparr>
         else None)"

fun collect_recommendations ::
  "TypedPosition list \<Rightarrow> RebalanceRecommendation list \<Rightarrow> RebalanceRecommendation list" where
  "collect_recommendations [] recs = recs"
| "collect_recommendations (position # rest) recs =
     (case price_recommendation position of
        None \<Rightarrow> collect_recommendations rest recs
      | Some recommendation \<Rightarrow> collect_recommendations rest (recs @ [recommendation]))"

fun priorityOrder :: "priority \<Rightarrow> int" where
  "priorityOrder High = 3"
| "priorityOrder Medium = 2"
| "priorityOrder Low = 1"

text \<open>
  \<open>Array.prototype.sort\<close> with a comparator. The algorithm is the engine's; the
  language requires it to be stable. It is modelled by insertion from the right, which
  puts an element before the first one it does not compare greater than.
\<close>

fun insert_by :: "('a \<Rightarrow> 'a \<Rightarrow> int) \<Rightarrow> 'a \<Rightarrow> 'a list \<Rightarrow> 'a list" where
  "insert_by cmp x [] = [x]"
| "insert_by cmp x (y # ys) = (if cmp x y \<le> 0 then x # y # ys else y # insert_by cmp x ys)"

fun Array_sort :: "('a \<Rightarrow> 'a \<Rightarrow> int) \<Rightarrow> 'a list \<Rightarrow> 'a list" where
  "Array_sort cmp [] = []"
| "Array_sort cmp (x # xs) = insert_by cmp x (Array_sort cmp xs)"

definition by_priority :: "RebalanceRecommendation \<Rightarrow> RebalanceRecommendation \<Rightarrow> int" where
  "by_priority a b = priorityOrder (priority b) - priorityOrder (priority a)"

definition RealSarosService_generateRebalanceRecommendations ::
  "TypedPosition list \<Rightarrow> RebalanceRecommendation list" where
  "RealSarosService_generateRebalanceRecommendations positions =
     Array_sort by_priority (collect_recommendations positions [])"

section \<open>Strategy simulators\<close>

text \<open>Both simulators look the strategy name up in an object literal.\<close>

text \<open>
  Reading a field of what the lookup found: the field's number on a profile, \<open>undefined\<close>
  on an inherited function or object, a \<open>TypeError\<close> on \<open>undefined\<close>.
\<close>

fun read_field :: "string \<Rightarrow> ('a \<Rightarrow> jsnum) \<Rightarrow> 'a property \<Rightarrow> js_error + jsval" where
  "read_field name field (Own config) = Inr (JNumber (field config))"
| "read_field name field Inherited = Inr JUndefined"
| "read_field name field Absent = Inl (TypeError name)"

record SimulationDetails =
  feesProjected :: jsnum
  ilProjected :: jsnum
  capitalEfficiency :: jsnum

record StrategySimulationResult =
  sim_strategy :: string
  sim_expectedReturn :: jsval
  sim_risk :: jsval
  timeHorizon :: string
  confidence :: jsnum
  sim_riskScore :: jsval
  details :: SimulationDetails

record ApiStrategyConfig =
  cfg_risk :: jsnum
  cfg_expectedReturn :: jsnum
  cfg_apr :: jsnum
  cfg_binRange :: jsnum

definition SarosApiService_strategyConfigs :: "string \<Rightarrow> ApiStrategyConfig property" where
  "SarosApiService_strategyConfigs name =
     (if name = ''narrow'' then
        Own \<lparr>cfg_risk = Fin (8 / 10), cfg_expectedReturn = Fin (12 / 100), cfg_apr = Fin 65,
             cfg_binRange = Fin 5\<rparr>
      else if name = ''wide'' then
        Own \<lparr>cfg_risk = Fin (3 / 10), cfg_expectedReturn = Fin (6 / 100), cfg_apr = Fin 25,
             cfg_binRange = Fin 50\<rparr>
      else if name = ''balanced'' then
        Own \<lparr>cfg_risk = Fin (5 / 10), cfg_expectedReturn = Fin (9 / 100), cfg_apr = Fin 45,
             cfg_binRange = Fin 20\<rparr>
      else if name \<in> set Object_prototype_properties then Inherited
      else Absent)"

text \<open>
  \<open>SarosApiService.simulateStrategy\<close>. The result is the value the returned promise
  resolves to, or the exception it is rejected with. A missing \<open>timeHorizon\<close> takes its
  default; the position and \<open>marketConditions\<close> are not read.
\<close>

definition SarosApiService_simulateStrategy ::
  "TypedPosition \<Rightarrow> string \<Rightarrow> string option \<Rightarrow> js_error + StrategySimulationResult" where
  "SarosApiService_simulateStrategy position strategy' timeHorizon' =
     (let config = SarosApiService_strategyConfigs strategy'
      in case read_field ''expectedReturn'' cfg_expectedReturn config of
           Inl e \<Rightarrow> Inl e
         | Inr expectedReturn \<Rightarrow>
             (case read_field ''risk'' cfg_risk config of
                Inl e \<Rightarrow> Inl e
              | Inr risk \<Rightarrow>
                  Inr \<lparr>sim_strategy = strategy',
                       sim_expectedReturn = expectedReturn,
                       sim_risk = risk,
                       timeHorizon = (case timeHorizon' of None \<Rightarrow> ''30d'' | Some t \<Rightarrow> t),
                       confidence = Fin (75 / 100),
                       sim_riskScore = risk,
                       details =
                         \<lparr>feesProjected = js_mul (ToNumber expectedReturn) (Fin (8 / 10)),
                          ilProjected =
                            (if strategy' = ''narrow'' then Fin (5 / 100) else Fin (2 / 100)),
                          capitalEfficiency =
                            (if strategy' = ''narrow'' then Fin (95 / 100)
                             else Fin (6 / 10))\<rparr>\<rparr>))"

record RealStrategyConfig =
  rangeMultiplier :: jsnum
  expectedAPY :: jsnum
  cfg_riskScore :: jsnum

definition RealSarosService_strategyConfigs :: "string \<Rightarrow> RealStrategyConfig property" where
  "RealSarosService_strategyConfigs name =
     (if name = ''conservative'' then
        Own \<lparr>rangeMultiplier = Fin (2 / 10), expectedAPY = Fin 15, cfg_riskScore = Fin 2\<rparr>
      else if name = ''balanced'' then
        Own \<lparr>rangeMultiplier = Fin (1 / 10), expectedAPY = Fin 25, cfg_riskScore = Fin 5\<rparr>
      else if name = ''aggressive'' then
        Own \<lparr>rangeMultiplier = Fin (5 / 100), expectedAPY = Fin 40, cfg_riskScore = Fin 8\<rparr>
      else if name \<in> set Object_prototype_properties then Inherited
      else Absent)"

definition estimateVolatility :: "TypedPosition \<Rightarrow> jsnum" where
  "estimateVolatility position =
     (let min' = price_min (priceRange position);
          max' = price_max (priceRange position);
          current = price_current (priceRange position);
          rangeSize = js_div (js_sub max' min') current
      in Math_min (js_mul rangeSize (Fin 2)) (Fin (5 / 10)))"

text \<open>\<open>strategy.charAt(0).toUpperCase() + strategy.slice(1)\<close>.\<close>

fun capitalize :: "string \<Rightarrow> string" where
  "capitalize [] = []"
| "capitalize (c # cs) = toUpperCase_char c # cs"

text \<open>
  \<open>RealSarosService.simulateStrategy\<close>. \<open>random\<close> is the value \<open>Math.random()\<close>
  returns in this call. The arithmetic on profile fields converts \<open>undefined\<close> to \<open>NaN\<close>.
  Whatever the \<open>try\<close> block raises is thrown again, wrapped.
\<close>

definition simulate_try_block ::
  "rat \<Rightarrow> TypedPosition \<Rightarrow> string \<Rightarrow> string option \<Rightarrow> js_error + StrategySimulationResult" where
  "simulate_try_block random position strategy' timeHorizon' =
     (let config = RealSarosService_strategyConfigs strategy';
          baseValue = totalLiquidity position;
          currentVolatility = estimateVolatility position
      in case read_field ''expectedAPY'' expectedAPY config of
           Inl e \<Rightarrow> Inl e
         | Inr apy' \<Rightarrow>
             (case read_field ''rangeMultiplier'' rangeMultiplier config of
                Inl e \<Rightarrow> Inl e
              | Inr multiplier \<Rightarrow>
                  (case read_field ''riskScore'' cfg_riskScore config of
                     Inl e \<Rightarrow> Inl e
                   | Inr riskScore \<Rightarrow>
                       (let adjustedAPY =
                              js_mul (ToNumber apy')
                                (js_sub (Fin 1) (js_mul currentVolatility (ToNumber multiplier)))
                        in Inr
                          \<lparr>sim_strategy = capitalize strategy',
                           sim_expectedReturn =
                             JNumber (js_div (Math_max (Fin 5) (Math_min adjustedAPY (Fin 100)))
                                        (Fin 100)),
                           sim_risk = JUndefined,
                           timeHorizon =
                             (case timeHorizon' of
                                None \<Rightarrow> ''30d''
                              | Some t \<Rightarrow> if t = [] then ''30d'' else t),
                           confidence = js_add (Fin (75 / 100)) (js_mul (Fin random) (Fin (2 / 10))),
                           sim_riskScore = riskScore,
                           details =
                             \<lparr>feesProjected =
                                js_mul (js_div (js_mul baseValue adjustedAPY) (Fin 100))
                                  (Fin (25 / 100)),
                              ilProjected =
                                js_mul (js_mul currentVolatility (ToNumber multiplier)) baseValue,
                              capitalEfficiency =
                                js_div (js_div (ToNumber apy') (Fin 100))
                                  (ToNumber riskScore)\<rparr>\<rparr>))))"

definition RealSarosService_simulateStrategy ::
  "rat \<Rightarrow> TypedPosition \<Rightarrow> string \<Rightarrow> string option \<Rightarrow> js_error + StrategySimulationResult" where
  "RealSarosService_simulateStrategy random position strategy' timeHorizon' =
     (case simulate_try_block random position strategy' timeHorizon' of
        Inl e \<Rightarrow> Inl (Error ''Strategy simulation failed: '' e)
      | Inr result \<Rightarrow> Inr result)"

section \<open>Conversion of pool positions (SarosApiService, REST variant)\<close>

text \<open>
  The records of the REST interface. A mint address may be missing from a pool position
  (\<open>None\<close>), and an element of either array may be \<open>null\<close>.
\<close>

record SarosBinPosition =
  pair_id :: string
  bin_id :: int
  token_x_amount :: jsnum
  token_y_amount :: jsnum
  liquidity_shares :: jsnum
  bin_price :: jsnum

record SarosPoolPosition =
  pool_pair_id :: string
  total_liquidity :: jsnum
  total_token_x :: jsnum
  total_token_y :: jsnum
  token_x_mint :: "string option"
  token_y_mint :: "string option"
  bin_step :: jsnum
  active_bin_id :: int
  fees_24h :: jsnum
  apr_24h :: jsnum

definition tokenMap :: "string \<Rightarrow> string property" where
  "tokenMap mintAddress =
     (if mintAddress = ''So11111111111111111111111111111111111111112'' then Own ''SOL''
      else if mintAddress = ''EPjFWdd5AufqSSqeM2qN1xzybapC8G4wEGGkZwyTDt1v'' then Own ''USDC''
      else if mintAddress = ''Es9vMFrzaCERmJfrF4H2FYD4KCoNkY11McCe8BenwNYB'' then Own ''USDT''
      else if mintAddress = ''4k3Dyjzvzp8eMZWUXbBCjEvwSkkk59S5iCNLY3QrkX6R'' then Own ''RAY''
      else if mintAddress = ''mSoLzYCxHdYgdzU16g5QSh3i5K3z3KZK7ytfqcJm7So'' then Own ''mSOL''
      else if mintAddress = ''SARoSrBFZnGJmfSNvCwbx8j6sbXYTaomyKbvX6bhfHu'' then Own ''SAROS''
      else if mintAddress \<in> set Object_prototype_properties then Inherited
      else Absent)"

text \<open>
  \<open>getTokenSymbol\<close>. A missing mint address is in no table, and \<open>slice\<close> raises on
  it.
\<close>

definition getTokenSymbol :: "string option \<Rightarrow> js_error + token_symbol" where
  "getTokenSymbol mintAddress =
     (case mintAddress of
        None \<Rightarrow> Inl (TypeError ''slice'')
      | Some mint \<Rightarrow>
          (case tokenMap mint of
             Own symbol \<Rightarrow> Inr (Symbol symbol)
           | Inherited \<Rightarrow> Inr (Inherited_member mint)
           | Absent \<Rightarrow> Inr (Symbol (map toUpperCase_char (take 4 mint)))))"

text \<open>
  \<open>getBinDistributionForPosition\<close>: \<open>None\<close> is a response without \<open>positions\<close>.
  The callback of \<open>filter\<close> reads \<open>pair_id\<close> of every element, and raises on a \<open>null\<close>
  one.
\<close>

fun filter_pair ::
  "string \<Rightarrow> SarosBinPosition option list \<Rightarrow> js_error + SarosBinPosition list" where
  "filter_pair pairId [] = Inr []"
| "filter_pair pairId (None # bps) = Inl (TypeError ''pair_id'')"
| "filter_pair pairId (Some bp # bps) =
     (case filter_pair pairId bps of
        Inl e \<Rightarrow> Inl e
      | Inr rest \<Rightarrow> Inr (if pair_id bp = pairId then bp # rest else rest))"

definition getBinDistributionForPosition ::
  "string \<Rightarrow> SarosBinPosition option list option \<Rightarrow> js_error + BinDistribution list" where
  "getBinDistributionForPosition pairId binPositions =
     (case binPositions of
        None \<Rightarrow> Inr []
      | Some positions \<Rightarrow>
          (case filter_pair pairId positions of
             Inl e \<Rightarrow> Inl e
           | Inr positionBins \<Rightarrow>
               Inr (map (\<lambda>bin.
                           \<lparr>dist_id = bin_id bin, binId = bin_id bin, price = bin_price bin,
                            liquidityX = token_x_amount bin, liquidityY = token_y_amount bin,
                            feeAPR = Fin 0,
                            percentage = Some (js_div (liquidity_shares bin) (Fin 10000))\<rparr>)
                      positionBins)))"

text \<open>
  The \<open>try\<close> block of \<open>convertPoolPositionsToPositions\<close> on an element of the array:
  the position it builds, or the exception that ends it. The two token symbols are
  resolved first. The health is that of the unguarded classifier of the same class.
\<close>

definition convertPoolPosition ::
  "SarosPoolPosition option \<Rightarrow> SarosBinPosition option list option \<Rightarrow>
   js_error + TypedPosition" where
  "convertPoolPosition element binPositions =
     (case element of
        None \<Rightarrow> Inl (TypeError ''token_x_mint'')
      | Some poolPos \<Rightarrow>
          (case getTokenSymbol (token_x_mint poolPos) of
             Inl e \<Rightarrow> Inl e
           | Inr tokenXSymbol \<Rightarrow>
               (case getTokenSymbol (token_y_mint poolPos) of
                  Inl e \<Rightarrow> Inl e
                | Inr tokenYSymbol \<Rightarrow>
                    (case getBinDistributionForPosition (pool_pair_id poolPos) binPositions of
                       Inl e \<Rightarrow> Inl e
                     | Inr binDistribution' \<Rightarrow>
                         (let currentValue' =
                                js_add (total_token_x poolPos) (total_token_y poolPos);
                              lowerBinId' =
                                (case map binId binDistribution' of
                                   [] \<Rightarrow> active_bin_id poolPos - 10
                                 | b # bs \<Rightarrow> fold min bs b);
                              upperBinId' =
                                (case map binId binDistribution' of
                                   [] \<Rightarrow> active_bin_id poolPos + 10
                                 | b # bs \<Rightarrow> fold max bs b)
                          in Inr
                            \<lparr>position_id = pool_pair_id poolPos,
                             pair = [Sym tokenXSymbol, Str ''/'', Sym tokenYSymbol],
                             pairName = [Sym tokenXSymbol, Str ''/'', Sym tokenYSymbol],
                             tokenA = tokenXSymbol,
                             tokenB = tokenYSymbol,
                             tokenX = tokenXSymbol,
                             tokenY = tokenYSymbol,
                             liquidity = total_liquidity poolPos,
                             totalLiquidity = total_liquidity poolPos,
                             position_value = currentValue',
                             currentValue = currentValue',
                             change24h = Fin 0,
                             apy = apr_24h poolPos,
                             currentAPY = apr_24h poolPos,
                             apr = apr_24h poolPos,
                             feesEarned = fees_24h poolPos,
                             fees24h = fees_24h poolPos,
                             feesTotal = fees_24h poolPos,
                             unclaimedFees = fees_24h poolPos,
                             pnl = js_sub currentValue' (total_liquidity poolPos),
                             pnlPercentage =
                               js_mul (js_div (js_sub currentValue' (total_liquidity poolPos))
                                         (total_liquidity poolPos))
                                 (Fin 100),
                             binRange =
                               \<lparr>lower = num_of_int lowerBinId', upper = num_of_int upperBinId',
                                active = num_of_int (active_bin_id poolPos)\<rparr>,
                             lowerBinId = lowerBinId',
                             upperBinId = upperBinId',
                             distribution =
                               \<lparr>amountA = total_token_x poolPos,
                                amountB = total_token_y poolPos\<rparr>,
                             priceRange =
                               \<lparr>price_min = js_mul (num_of_int lowerBinId') (bin_step poolPos),
                                price_max = js_mul (num_of_int upperBinId') (bin_step poolPos),
                                price_current =
                                  js_mul (num_of_int (active_bin_id poolPos))
                                    (bin_step poolPos)\<rparr>,
                             strategy = ''active'',
                             health =
                               SarosApiService_calculateHealth (active_bin_id poolPos)
                                 lowerBinId' upperBinId',
                             binCount = upperBinId' - lowerBinId' + 1,
                             binDistribution = binDistribution',
                             impermanentLoss = None\<rparr>)))))"

text \<open>
  The loop: a position is pushed when its \<open>try\<close> block ends normally. The \<open>catch\<close>
  block logs the exception with \<open>pair_id\<close> of the element and the loop goes on with
  the next one, so the element is skipped; on a \<open>null\<close> element the handler itself raises
  and the call is rejected. The console is not kept.
\<close>

fun convert_loop ::
  "SarosPoolPosition option list \<Rightarrow> SarosBinPosition option list option \<Rightarrow>
   TypedPosition list \<Rightarrow> js_error + TypedPosition list" where
  "convert_loop [] binPositions positions = Inr positions"
| "convert_loop (element # rest) binPositions positions =
     (case convertPoolPosition element binPositions of
        Inr position \<Rightarrow> convert_loop rest binPositions (positions @ [position])
      | Inl e \<Rightarrow>
          (case element of
             None \<Rightarrow> Inl (TypeError ''pair_id'')
           | Some poolPos \<Rightarrow> convert_loop rest binPositions positions))"

definition convertPoolPositionsToPositions ::
  "SarosPoolPosition option list \<Rightarrow> SarosBinPosition option list option \<Rightarrow>
   js_error + TypedPosition list" where
  "convertPoolPositionsToPositions poolPositions binPositions =
     convert_loop poolPositions binPositions []"

section \<open>Portfolio aggregation\<close>

record PerformanceDataPoint =
  date :: string
  point_value :: jsnum
  fees :: jsnum
  il :: "jsnum option"

record PortfolioSummary =
  totalActivePositions :: nat
  totalUnclaimedFees :: jsnum
  averageAPR :: jsnum

record PortfolioData =
  totalValue :: jsnum
  totalValueChange :: jsnum
  totalFeesEarned :: jsnum
  totalIL :: "jsnum option"
  totalPnL :: "jsnum option"
  totalPnLPercentage :: "jsnum option"
  avgApy :: jsnum
  positions :: "TypedPosition list"
  performanceData :: "PerformanceDataPoint list"
  summary :: "PortfolioSummary option"

text \<open>\<open>positions.reduce((sum, pos) => sum + field(pos), 0)\<close>.\<close>

definition reduce_sum :: "('a \<Rightarrow> jsnum) \<Rightarrow> 'a list \<Rightarrow> jsnum" where
  "reduce_sum field xs = foldl (\<lambda>sum pos. js_add sum (field pos)) (Fin 0) xs"

text \<open>
  \<open>SarosSdkService.calculatePortfolioData\<close>. The function of the same name in
  SarosApiService (REST variant) computes the same figures and differs only in
  \<open>performanceData\<close>, which it generates from random numbers.
\<close>

definition calculatePortfolioData :: "TypedPosition list \<Rightarrow> PortfolioData" where
  "calculatePortfolioData positions' =
     (let totalValue' = reduce_sum currentValue positions';
          totalPnL' = reduce_sum pnl positions';
          totalUnclaimedFees' = reduce_sum unclaimedFees positions';
          averageAPR' =
            (if length positions' > 0
             then js_div (reduce_sum apr positions') (num_of_nat (length positions'))
             else Fin 0)
      in \<lparr>totalValue = totalValue',
          totalValueChange = Fin 0,
          totalFeesEarned = totalUnclaimedFees',
          totalIL = None,
          totalPnL = Some totalPnL',
          totalPnLPercentage =
            Some (if js_gt totalValue' (Fin 0)
                  then js_mul (js_div totalPnL' (js_sub totalValue' totalPnL')) (Fin 100)
                  else Fin 0),
          avgApy = averageAPR',
          positions = positions',
          performanceData = [],
          summary = Some
            \<lparr>totalActivePositions = length positions',
             totalUnclaimedFees = totalUnclaimedFees',
             averageAPR = averageAPR'\<rparr>\<rparr>)"

text \<open>
  \<open>RealSarosService.getPortfolioData\<close>, from the positions and the performance data
  that its two generators, which draw random numbers, have returned.
  \<open>pos.impermanentLoss || 0\<close> replaces a missing, zero or \<open>NaN\<close> loss by zero.
\<close>

definition or_zero :: "jsnum option \<Rightarrow> jsnum" where
  "or_zero v = (case v of None \<Rightarrow> Fin 0 | Some n \<Rightarrow> if n = NaN \<or> n = Fin 0 then Fin 0 else n)"

definition calculateValueChange :: "PerformanceDataPoint list \<Rightarrow> jsnum" where
  "calculateValueChange performanceData' =
     (if length performanceData' < 2 then Fin 0
      else
        (let latest = performanceData' ! (length performanceData' - 1);
             previous = performanceData' ! (length performanceData' - 2)
         in js_sub (point_value latest) (point_value previous)))"

definition RealSarosService_getPortfolioData ::
  "TypedPosition list \<Rightarrow> PerformanceDataPoint list \<Rightarrow> PortfolioData" where
  "RealSarosService_getPortfolioData positions' performanceData' =
     (let totalValue' = reduce_sum totalLiquidity positions';
          totalFeesEarned' = reduce_sum feesTotal positions';
          avgApy' =
            (if length positions' > 0
             then js_div (reduce_sum currentAPY positions') (num_of_nat (length positions'))
             else Fin 0);
          totalValueChange' = calculateValueChange performanceData'
      in \<lparr>totalValue = totalValue',
          totalValueChange = totalValueChange',
          totalFeesEarned = totalFeesEarned',
          totalIL = Some (reduce_sum (\<lambda>pos. or_zero (impermanentLoss pos)) positions'),
          totalPnL = None,
          totalPnLPercentage = None,
          avgApy = avgApy',
          positions = positions',
          performanceData = performanceData',
          summary = None\<rparr>)"

section \<open>Auxiliary definitions for the proofs\<close>

text \<open>The ladder of thresholds of both classifiers, on the exact quotient.\<close>

definition threshold_grade :: "rat \<Rightarrow> health" where
  "threshold_grade q =
     (if 30 < q then Excellent else if 20 < q then Good else if 10 < q then Fair else Poor)"

text \<open>A position on which all three rules of SarosApiService fire.\<close>

definition bin50 :: BinDistribution where
  "bin50 =
     \<lparr>dist_id = 50, binId = 50, price = Fin 100, liquidityX = Fin 10, liquidityY = Fin 20,
      feeAPR = Fin 0, percentage = None\<rparr>"

definition example_position :: RuntimePosition where
  "example_position =
     \<lparr>position_id = ''p1'', pair = [Str ''SOL/USDC''], pairName = [Str ''SOL/USDC''],
      tokenA = Symbol ''SOL'', tokenB = Symbol ''USDC'', tokenX = Symbol ''SOL'',
      tokenY = Symbol ''USDC'', liquidity = Fin 1000, totalLiquidity = Fin 1000,
      position_value = Fin 850, currentValue = Fin 850, change24h = Fin 0, apy = Fin 12,
      currentAPY = Fin 12, apr = Fin 12, feesEarned = Fin 75, fees24h = Fin 75,
      feesTotal = Fin 75, unclaimedFees = JNumber (Fin 75), pnl = Fin (- 150),
      pnlPercentage = JNumber (Fin (- 15)),
      binRange = \<lparr>lower = Fin 100, upper = Fin 120, active = Fin 50\<rparr>,
      lowerBinId = 100, upperBinId = 120,
      distribution = \<lparr>amountA = Fin 10, amountB = Fin 20\<rparr>,
      priceRange = \<lparr>price_min = Fin 100, price_max = Fin 120, price_current = Fin 50\<rparr>,
      strategy = ''active'', health = Poor, binCount = 21,
      binDistribution = Some [Some bin50], impermanentLoss = None\<rparr>"

text \<open>A position as declared, with the figures of the first mock position of the services.\<close>

definition mock_position :: TypedPosition where
  "mock_position =
     \<lparr>position_id = ''mock-sol-usdc'', pair = [Str ''SOL/USDC''],
      pairName = [Str ''SOL/USDC''], tokenA = Symbol ''SOL'', tokenB = Symbol ''USDC'',
      tokenX = Symbol ''SOL'', tokenY = Symbol ''USDC'', liquidity = Fin 5000,
      totalLiquidity = Fin 5000, position_value = Fin 5250, currentValue = Fin 5250,
      change24h = Fin 5, apy = Fin (455 / 10), currentAPY = Fin (455 / 10),
      apr = Fin (455 / 10), feesEarned = Fin 125, fees24h = Fin 25, feesTotal = Fin 125,
      unclaimedFees = Fin 25, pnl = Fin 250, pnlPercentage = Fin 5,
      binRange = \<lparr>lower = Fin 8388598, upper = Fin 8388618, active = Fin 8388608\<rparr>,
      lowerBinId = 8388598, upperBinId = 8388618,
      distribution = \<lparr>amountA = Fin 25, amountB = Fin 2500\<rparr>,
      priceRange = \<lparr>price_min = Fin 95, price_max = Fin 105, price_current = Fin 100\<rparr>,
      strategy = ''balanced'', health = Excellent, binCount = 21,
      binDistribution = [], impermanentLoss = None\<rparr>"

text \<open>
  A pool position of the SOL/USDC pair that the REST interface can return: fully
  withdrawn, nothing left. The same without its mint addresses.
\<close>

definition empty_pool_position :: SarosPoolPosition where
  "empty_pool_position =
     \<lparr>pool_pair_id = ''pair-0'', total_liquidity = Fin 0, total_token_x = Fin 0,
      total_token_y = Fin 0,
      token_x_mint = Some ''So11111111111111111111111111111111111111112'',
      token_y_mint = Some ''EPjFWdd5AufqSSqeM2qN1xzybapC8G4wEGGkZwyTDt1v'',
      bin_step = Fin 20, active_bin_id = 8388608, fees_24h = Fin 0, apr_24h = Fin 0\<rparr>"

definition mintless_pool_position :: SarosPoolPosition where
  "mintless_pool_position = empty_pool_position\<lparr>token_x_mint := None, token_y_mint := None\<rparr>"

text \<open>A clock that starts at \<open>t0\<close> and advances by one millisecond at each reading.\<close>

definition ticking_clock :: "int \<Rightarrow> clock" where
  "ticking_clock t0 k = t0 + int k"

text \<open>The example position with its fees delivered as the text \<open>"75"\<close>.\<close>

definition text_fees_position :: RuntimePosition where
  "text_fees_position = example_position\<lparr>unclaimedFees := JString (Fin 75)\<rparr>"

text \<open>The example position without a bin distribution.\<close>

definition no_distribution_position :: RuntimePosition where
  "no_distribution_position = example_position\<lparr>binDistribution := None\<rparr>"

text \<open>
  The loop of SarosApiService on an array of position objects: no element is \<open>null\<close>,
  so the handler does not raise and the loop runs to its end.
\<close>

fun object_loop :: "clock \<Rightarrow> RuntimePosition list \<Rightarrow> gen_state \<Rightarrow> gen_state" where
  "object_loop clk [] s = s"
| "object_loop clk (position # rest) s =
     (case try_block clk (Some position) s of
        (s', None) \<Rightarrow> object_loop clk rest s'
      | (s', Some e) \<Rightarrow>
          object_loop clk rest (s'\<lparr>console := console s' @ [log_entry position e]\<rparr>))"

section \<open>Properties of the health classifier\<close>

lemma overflow_threshold_large: "2 ^ 64 < overflow_threshold"
  by (simp add: overflow_threshold_def)

lemma finite_result_small [simp]:
  "- (2 ^ 64) \<le> x \<Longrightarrow> x \<le> 2 ^ 64 \<Longrightarrow> finite_result x = Fin x"
  using overflow_threshold_large by (simp add: finite_result_def)

lemma js_gt_Fin [simp]: "js_gt (Fin a) (Fin b) = (b < a)"
  by (simp add: js_gt_def)

lemma js_gt_NaN_left [simp]: "js_gt NaN y = False"
  by (cases y) (simp_all add: js_gt_def)

lemma js_gt_NegInf_left [simp]: "js_gt NegInf y = False"
  by (cases y) (simp_all add: js_gt_def)

text \<open>The figures of the specification's end-to-end scenario and of its boundaries.\<close>

lemma centred_position_is_Excellent:
  "SarosApiService_calculateHealth 8388608 8388598 8388618 = Excellent \<and>
   SarosSdkService_calculateHealth 8388608 8388598 8388618 = Excellent"
  by (simp add: SarosApiService_calculateHealth_def SarosSdkService_calculateHealth_def
      num_of_int_def Let_def)

lemma thresholds_are_strict:
  "SarosApiService_calculateHealth 106 100 120 = Good \<and>
   SarosApiService_calculateHealth 104 100 120 = Fair \<and>
   SarosApiService_calculateHealth 102 100 120 = Poor \<and>
   SarosApiService_calculateHealth 107 100 120 = Excellent"
  by (simp add: SarosApiService_calculateHealth_def num_of_int_def Let_def)

text \<open>
  On a zero-width range the unguarded ratio is \<open>NaN\<close> (active bin on the range) or
  \<open>-Infinity\<close> (active bin elsewhere), and neither exceeds a threshold.
\<close>

lemma degenerate_ratio:
  "js_gt (js_mul (js_div (num_of_int (min (a - b) (b - a))) (num_of_int 0)) (Fin 100)) (Fin t)
     = False"
proof (cases "a = b")
  case True
  then show ?thesis by (simp add: num_of_int_def)
next
  case False
  then have "min (a - b) (b - a) < 0" by auto
  then show ?thesis by (simp add: num_of_int_def signed_inf_def)
qed

text \<open>
  C3. For every bin id \<open>b\<close> and every active bin id \<open>a\<close>, both classifiers return Poor on
  the zero-width range from \<open>b\<close> to \<open>b\<close>: the guarded one by its guard, the unguarded one
  because the ratio it divides out is not a number above any threshold.
\<close>

theorem degenerate_range_is_Poor:
  "SarosApiService_calculateHealth a b b = Poor \<and> SarosSdkService_calculateHealth a b b = Poor"
  by (simp add: SarosApiService_calculateHealth_def SarosSdkService_calculateHealth_def
      Let_def degenerate_ratio)

text \<open>
  On a range of positive width the ratio exceeds a threshold exactly when the exact
  quotient does, overflow included.
\<close>

lemma healthRatio_positive_range:
  assumes "0 < r" and "0 \<le> t" and "t \<le> 2 ^ 64"
  shows "js_gt (js_mul (js_div (num_of_int d) (num_of_int r)) (Fin 100)) (Fin t) =
           (t < of_int d / of_int r * 100)"
proof -
  define q :: rat where "q = of_int d / of_int r"
  have T: "t < overflow_threshold" "0 < overflow_threshold"
    using overflow_threshold_large assms by simp_all
  have div: "js_div (num_of_int d) (num_of_int r) = finite_result q"
    using assms by (simp add: num_of_int_def q_def)
  consider "overflow_threshold \<le> q" | "q \<le> - overflow_threshold"
    | "- overflow_threshold < q" "q < overflow_threshold"
    by linarith
  then have "js_gt (js_mul (finite_result q) (Fin 100)) (Fin t) = (t < q * 100)"
  proof cases
    case 1
    then have "js_mul (finite_result q) (Fin 100) = PosInf"
      by (simp add: finite_result_def signed_inf_def)
    moreover have "t < q * 100" using 1 T by linarith
    ultimately show ?thesis by (simp add: js_gt_def)
  next
    case 2
    then have "js_mul (finite_result q) (Fin 100) = NegInf"
      using T by (simp add: finite_result_def signed_inf_def)
    moreover have "\<not> t < q * 100" using 2 T assms by linarith
    ultimately show ?thesis by (simp add: js_gt_def)
  next
    case 3
    then have "js_mul (finite_result q) (Fin 100) = finite_result (q * 100)"
      by (simp add: finite_result_def)
    then show ?thesis
      using T assms by (auto simp: finite_result_def js_gt_def)
  qed
  then show ?thesis by (simp only: div q_def)
qed

lemma api_health_positive_range:
  "0 < u - l \<Longrightarrow>
   SarosApiService_calculateHealth a l u =
     threshold_grade (of_int (min (a - l) (u - a)) / of_int (u - l) * 100)"
  by (simp add: SarosApiService_calculateHealth_def Let_def healthRatio_positive_range
      threshold_grade_def del: js_gt_Fin)

lemma sdk_health_positive_range:
  "0 < u - l \<Longrightarrow>
   SarosSdkService_calculateHealth a l u =
     threshold_grade (of_int (min (a - l) (u - a)) / of_int (u - l) * 100)"
  by (simp add: SarosSdkService_calculateHealth_def Let_def healthRatio_positive_range
      threshold_grade_def del: js_gt_Fin)

lemma threshold_grade_mono:
  "p \<le> q \<Longrightarrow> grade_rank (threshold_grade p) \<le> grade_rank (threshold_grade q)"
  by (simp add: threshold_grade_def)

lemma threshold_grade_nonpositive: "q \<le> 0 \<Longrightarrow> threshold_grade q = Poor"
  by (simp add: threshold_grade_def)

lemma ratio_mono:
  fixes d1 d2 r :: int
  assumes "0 < r" and "d1 \<le> d2"
  shows "(of_int d1 / of_int r * 100 :: rat) \<le> of_int d2 / of_int r * 100"
  using assms by (simp add: divide_right_mono)

text \<open>
  C4. For every range with \<open>lowerBinId \<le> upperBinId\<close> and every active bin below
  \<open>lowerBinId\<close> or above \<open>upperBinId\<close>, both classifiers return Poor, however far outside
  the active bin lies.
\<close>

theorem out_of_range_is_Poor:
  assumes "l \<le> u" and "a < l \<or> u < a"
  shows "SarosApiService_calculateHealth a l u = Poor \<and>
         SarosSdkService_calculateHealth a l u = Poor"
proof (cases "l = u")
  case True
  then show ?thesis
    by (simp add: SarosApiService_calculateHealth_def SarosSdkService_calculateHealth_def
        Let_def degenerate_ratio)
next
  case False
  with assms have r: "0 < u - l" by simp
  from assms have "min (a - l) (u - a) < 0" by auto
  then have "(of_int (min (a - l) (u - a)) / of_int (u - l) * 100 :: rat) \<le> 0"
    using r by (simp add: divide_le_0_iff)
  then show ?thesis
    using r
    by (simp only: api_health_positive_range sdk_health_positive_range
        threshold_grade_nonpositive simp_thms)
qed

theorem out_of_range_is_Poor_witness:
  "(100::int) \<le> 120 \<and> ((50::int) < 100 \<or> (120::int) < 50) \<and>
   SarosApiService_calculateHealth 50 100 120 = Poor \<and>
   SarosSdkService_calculateHealth 50 100 120 = Poor"
  using out_of_range_is_Poor [where l = 100 and u = 120 and a = 50] by simp

text \<open>
  C5. On a range of positive width, for two active bins inside the range, the one whose
  smaller distance to an edge of the range is not larger gets a grade that is not higher,
  in the order Poor, Fair, Good, Excellent; this holds for both classifiers.
\<close>

theorem health_monotone_in_minDistance:
  assumes "0 < u - l"
    and "l \<le> a1" and "a1 \<le> u" and "l \<le> a2" and "a2 \<le> u"
    and "min (a1 - l) (u - a1) \<le> min (a2 - l) (u - a2)"
  shows "grade_rank (SarosApiService_calculateHealth a1 l u)
           \<le> grade_rank (SarosApiService_calculateHealth a2 l u) \<and>
         grade_rank (SarosSdkService_calculateHealth a1 l u)
           \<le> grade_rank (SarosSdkService_calculateHealth a2 l u)"
  using assms(1) ratio_mono [OF assms(1) assms(6)]
  by (simp only: api_health_positive_range sdk_health_positive_range threshold_grade_mono
      simp_thms)

theorem health_monotone_in_minDistance_witness:
  "(0::int) < 120 - 100 \<and> (100::int) \<le> 103 \<and> (103::int) \<le> 120 \<and> (100::int) \<le> 110 \<and>
   (110::int) \<le> 120 \<and> min (103 - 100) (120 - 103) \<le> min (110 - 100) (120 - (110::int)) \<and>
   grade_rank (SarosApiService_calculateHealth 103 100 120)
     \<le> grade_rank (SarosApiService_calculateHealth 110 100 120) \<and>
   grade_rank (SarosSdkService_calculateHealth 103 100 120)
     \<le> grade_rank (SarosSdkService_calculateHealth 110 100 120)"
  using health_monotone_in_minDistance [where l = 100 and u = 120 and ?a1.0 = 103 and ?a2.0 = 110]
  by simp

section \<open>Properties of the recommendation engines\<close>

subsection \<open>The priority sort of RealSarosService\<close>

lemma insert_by_front: "zs = [] \<or> cmp x (hd zs) \<le> 0 \<Longrightarrow> insert_by cmp x zs = x # zs"
  by (cases zs) auto

lemma insert_by_skip:
  "\<forall>y\<in>set ys. 0 < cmp x y \<Longrightarrow> insert_by cmp x (ys @ zs) = ys @ insert_by cmp x zs"
  by (induction ys) auto

lemma by_priority_High: "priority x = High \<Longrightarrow> by_priority x y \<le> 0"
  by (cases "priority y") (simp_all add: by_priority_def)

text \<open>
  Sorting with the comparator \<open>by_priority\<close> lays out the high recommendations, then the
  medium ones, then the low ones, each band in the order it had.
\<close>

lemma Array_sort_by_priority:
  "Array_sort by_priority xs =
     filter (\<lambda>r. priority r = High) xs @ filter (\<lambda>r. priority r = Medium) xs @
     filter (\<lambda>r. priority r = Low) xs"
proof (induction xs)
  case Nil
  then show ?case by simp
next
  case (Cons x xs)
  let ?H = "filter (\<lambda>r. priority r = High) xs"
  let ?M = "filter (\<lambda>r. priority r = Medium) xs"
  let ?L = "filter (\<lambda>r. priority r = Low) xs"
  have step: "Array_sort by_priority (x # xs) = insert_by by_priority x (?H @ ?M @ ?L)"
    using Cons.IH by simp
  show ?case
  proof (cases "priority x")
    case High
    have "insert_by by_priority x (?H @ ?M @ ?L) = x # ?H @ ?M @ ?L"
      by (rule insert_by_front) (simp add: by_priority_High High)
    with step High show ?thesis by simp
  next
    case Medium
    have skip: "\<forall>y\<in>set ?H. 0 < by_priority x y"
      by (simp add: by_priority_def Medium)
    have "?M @ ?L = [] \<or> by_priority x (hd (?M @ ?L)) \<le> 0"
    proof (cases "?M @ ?L")
      case Nil
      then show ?thesis by simp
    next
      case (Cons y ys)
      then have "y \<in> set (?M @ ?L)" by simp
      then have "priority y = Medium \<or> priority y = Low" by auto
      then show ?thesis using Cons by (auto simp: by_priority_def Medium)
    qed
    then have "insert_by by_priority x (?M @ ?L) = x # ?M @ ?L"
      by (rule insert_by_front)
    moreover have "insert_by by_priority x (?H @ ?M @ ?L) = ?H @ insert_by by_priority x (?M @ ?L)"
      using skip by (rule insert_by_skip)
    ultimately show ?thesis using step Medium by simp
  next
    case Low
    have skip: "\<forall>y\<in>set (?H @ ?M). 0 < by_priority x y"
      by (auto simp: by_priority_def Low)
    have "?L = [] \<or> by_priority x (hd ?L) \<le> 0"
    proof (cases ?L)
      case Nil
      then show ?thesis by simp
    next
      case (Cons y ys)
      then have "y \<in> set ?L" by simp
      then have "priority y = Low" by auto
      then show ?thesis using Cons by (auto simp: by_priority_def Low)
    qed
    then have "insert_by by_priority x ?L = x # ?L"
      by (rule insert_by_front)
    moreover have "insert_by by_priority x ((?H @ ?M) @ ?L) = (?H @ ?M) @ insert_by by_priority x ?L"
      using skip by (rule insert_by_skip)
    ultimately show ?thesis using step Low by simp
  qed
qed

lemma collect_recommendations_eq:
  "collect_recommendations ps acc = acc @ List.map_filter price_recommendation ps"
  by (induction ps arbitrary: acc) (auto split: option.splits)

subsection \<open>The loop of SarosApiService\<close>

lemmas api_engine_defs =
  try_block_def out_of_range_rule_def fees_rule_def loss_rule_def push_def tick_def
  Date_now_def Let_def

lemmas api_example_defs =
  SarosApiService_generateRebalanceRecommendations_def example_position_def bin50_def
  initial_state_def findActiveBin_def catch_block_def log_entry_def ticking_clock_def
  js_gt_def text_fees_position_def no_distribution_position_def pushed_alone_def

text \<open>
  On an array of position objects the loop runs to its end; on an array with a \<open>null\<close>
  element the handler raises and the call is rejected.
\<close>

lemma for_positions_objects:
  "for_positions clk (map Some ps) s = Inr (object_loop clk ps s)"
  by (induction ps arbitrary: s) (auto simp: catch_block_def split: prod.splits option.splits)

lemma for_positions_null:
  "None \<in> set elements \<Longrightarrow> for_positions clk elements s = Inl (TypeError ''id'')"
proof (induction elements arbitrary: s)
  case Nil
  then show ?case by simp
next
  case (Cons element rest)
  show ?case
  proof (cases element)
    case None
    then show ?thesis by (simp add: try_block_def catch_block_def)
  next
    case (Some p)
    with Cons.prems have "None \<in> set rest" by simp
    then show ?thesis
      using Cons.IH Some by (auto simp: catch_block_def split: prod.splits option.splits)
  qed
qed

lemma generate_objects:
  "SarosApiService_generateRebalanceRecommendations clk (map Some ps) =
     Inr (recommendations (object_loop clk ps initial_state))"
  by (simp add: SarosApiService_generateRebalanceRecommendations_def for_positions_objects)

lemma generate_single:
  "SarosApiService_generateRebalanceRecommendations clk [Some p] = Inr (pushed_alone clk p)"
  using generate_objects [of clk "[p]"]
  by (simp add: pushed_alone_def split: prod.splits option.splits)

text \<open>
  What one position appends does not depend, apart from the clock readings in \<open>id\<close>, on
  the state in which it is evaluated.
\<close>

lemma try_block_recs:
  "map without_id (recommendations (fst (try_block clk (Some p) s))) =
     map without_id (recommendations s) @ map without_id (pushed_alone clk' p)"
  by (auto simp: api_engine_defs pushed_alone_def without_id_def initial_state_def
      split: sum.splits option.splits prod.splits if_splits)

lemma object_loop_recs:
  "map without_id (recommendations (object_loop clk ps s)) =
     map without_id (recommendations s) @
     concat (map (\<lambda>q. map without_id (pushed_alone clk' q)) ps)"
proof (induction ps arbitrary: s)
  case Nil
  then show ?case by simp
next
  case (Cons p ps)
  obtain s' r where tb: "try_block clk (Some p) s = (s', r)"
    by (cases "try_block clk (Some p) s")
  have recs:
    "map without_id (recommendations s') =
       map without_id (recommendations s) @ map without_id (pushed_alone clk' p)"
    using try_block_recs [of clk p s clk'] tb by simp
  show ?case
  proof (cases r)
    case None
    with tb have "object_loop clk (p # ps) s = object_loop clk ps s'" by simp
    then show ?thesis using Cons.IH [of s'] recs by simp
  next
    case (Some e)
    with tb have "object_loop clk (p # ps) s =
        object_loop clk ps (s'\<lparr>console := console s' @ [log_entry p e]\<rparr>)"
      by simp
    then show ?thesis
      using Cons.IH [of "s'\<lparr>console := console s' @ [log_entry p e]\<rparr>"] recs by simp
  qed
qed

text \<open>
  On an array of position objects the result is, up to \<open>id\<close>, the concatenation in input
  order of what each position yields alone, under any clock.
\<close>

lemma generate_decomposition:
  "map_sum id (map without_id)
     (SarosApiService_generateRebalanceRecommendations clk (map Some ps)) =
   Inr (concat (map (\<lambda>q. map without_id (pushed_alone clk' q)) ps))"
  using object_loop_recs [of clk ps initial_state clk']
  by (simp add: generate_objects initial_state_def)

lemma try_block_raises_at_findActiveBin:
  "findActiveBin (binDistribution p) = Inl e \<Longrightarrow> try_block clk (Some p) s = (s, Some e)"
  by (simp add: try_block_def)

lemma try_block_same_output:
  assumes "recommendations s = recommendations t" and "clock_reads s = clock_reads t"
  shows "recommendations (fst (try_block clk element s)) =
           recommendations (fst (try_block clk element t)) \<and>
         clock_reads (fst (try_block clk element s)) =
           clock_reads (fst (try_block clk element t))"
  using assms
  by (auto simp: api_engine_defs split: sum.splits option.splits prod.splits if_splits)

text \<open>Whether the rules raise on an element, and what, depends on the element alone.\<close>

lemma try_block_raises_independent:
  "snd (try_block clk element s) = snd (try_block clk' element s')"
  by (auto simp: api_engine_defs split: sum.splits option.splits prod.splits if_splits)

lemma try_block_console: "console (fst (try_block clk element s)) = console s"
  by (auto simp: api_engine_defs split: sum.splits option.splits prod.splits if_splits)

text \<open>The console does not influence the recommendations, and it only grows.\<close>

lemma object_loop_same_output:
  "recommendations s = recommendations t \<Longrightarrow> clock_reads s = clock_reads t \<Longrightarrow>
   recommendations (object_loop clk ps s) = recommendations (object_loop clk ps t)"
proof (induction ps arbitrary: s t)
  case Nil
  then show ?case by simp
next
  case (Cons p ps)
  obtain s' r where s: "try_block clk (Some p) s = (s', r)"
    by (cases "try_block clk (Some p) s")
  define t' where "t' = fst (try_block clk (Some p) t)"
  from try_block_same_output [OF Cons.prems, of clk "Some p"] s
  have same: "recommendations s' = recommendations t'" "clock_reads s' = clock_reads t'"
    by (simp_all add: t'_def)
  have "snd (try_block clk (Some p) t) = r"
    using try_block_raises_independent [of clk "Some p" t clk s] s by simp
  then have t: "try_block clk (Some p) t = (t', r)"
    by (simp add: t'_def prod_eq_iff)
  show ?case
  proof (cases r)
    case None
    with s t show ?thesis using Cons.IH [OF same] by simp
  next
    case (Some e)
    with s t show ?thesis
      using Cons.IH [of "s'\<lparr>console := console s' @ [log_entry p e]\<rparr>"
          "t'\<lparr>console := console t' @ [log_entry p e]\<rparr>"] same
      by simp
  qed
qed

lemma object_loop_console_grows: "set (console s) \<subseteq> set (console (object_loop clk ps s))"
proof (induction ps arbitrary: s)
  case Nil
  then show ?case by simp
next
  case (Cons p ps)
  obtain s' r where tb: "try_block clk (Some p) s = (s', r)"
    by (cases "try_block clk (Some p) s")
  then have c: "console s' = console s"
    using try_block_console [of clk "Some p" s] by simp
  show ?case
  proof (cases r)
    case None
    with tb c show ?thesis using Cons.IH [of s'] by simp
  next
    case (Some e)
    with tb c show ?thesis
      using Cons.IH [of "s'\<lparr>console := console s' @ [log_entry p e]\<rparr>"] by auto
  qed
qed

lemma object_loop_append:
  "object_loop clk (xs @ ys) s = object_loop clk ys (object_loop clk xs s)"
  by (induction xs arbitrary: s) (auto split: prod.splits option.splits)

lemma object_loop_logs:
  assumes "snd (try_block clk (Some p) initial_state) = Some e"
  shows "log_entry p e \<in> set (console (object_loop clk (ps1 @ p # ps2) initial_state))"
proof -
  let ?s = "object_loop clk ps1 initial_state"
  obtain s' where tb: "try_block clk (Some p) ?s = (s', Some e)"
    using try_block_raises_independent [of clk "Some p" ?s clk initial_state] assms
    by (cases "try_block clk (Some p) ?s") simp
  let ?logged = "s'\<lparr>console := console s' @ [log_entry p e]\<rparr>"
  have "object_loop clk (ps1 @ p # ps2) initial_state = object_loop clk ps2 ?logged"
    using tb by (simp add: object_loop_append)
  moreover have "log_entry p e \<in> set (console ?logged)" by simp
  ultimately show ?thesis using object_loop_console_grows [of ?logged clk ps2] by auto
qed

lemma generate_without_failing_position:
  assumes "findActiveBin (binDistribution p) = Inl e"
  shows "SarosApiService_generateRebalanceRecommendations clk (map Some (ps1 @ p # ps2)) =
         SarosApiService_generateRebalanceRecommendations clk (map Some (ps1 @ ps2))"
proof -
  let ?s = "object_loop clk ps1 initial_state"
  let ?logged = "?s\<lparr>console := console ?s @ [log_entry p e]\<rparr>"
  have "object_loop clk (ps1 @ p # ps2) initial_state = object_loop clk ps2 ?logged"
    by (simp add: object_loop_append try_block_raises_at_findActiveBin [OF assms])
  moreover have "recommendations (object_loop clk ps2 ?logged) =
                   recommendations (object_loop clk ps2 ?s)"
    by (rule object_loop_same_output) simp_all
  ultimately show ?thesis
    by (simp only: generate_objects object_loop_append)
qed

subsection \<open>Claims on the recommendation engines\<close>

text \<open>
  C1, as stated, fails on SarosApiService, which does not sort: the example position
  yields a medium recommendation between two high ones.
\<close>

theorem api_recommendations_unsorted:
  "map_sum id (map priority)
     (SarosApiService_generateRebalanceRecommendations (ticking_clock 1000)
        [Some example_position])
   = Inr [High, Medium, High]"
  by (simp add: api_example_defs api_engine_defs)

text \<open>
  C1, amended. For every input position array, the list returned by
  RealSarosService.generateRebalanceRecommendations is sorted by priority, every high
  recommendation before every medium one and every medium one before every low one, and
  the sort is stable: each band keeps the order in which the loop produced it, which is
  the order of the input positions. SarosApiService.generateRebalanceRecommendations does
  not sort: on every array of position objects it resolves to the concatenation, in input
  order, of the recommendations of each position, which are what it resolves to on the
  array with that position alone.
\<close>

theorem recommendation_order:
  "RealSarosService_generateRebalanceRecommendations ps =
     filter (\<lambda>r. priority r = High) (List.map_filter price_recommendation ps) @
     filter (\<lambda>r. priority r = Medium) (List.map_filter price_recommendation ps) @
     filter (\<lambda>r. priority r = Low) (List.map_filter price_recommendation ps) \<and>
   SarosApiService_generateRebalanceRecommendations clk [Some q] = Inr (pushed_alone clk q) \<and>
   map_sum id (map without_id)
     (SarosApiService_generateRebalanceRecommendations clk (map Some qs)) =
     Inr (concat (map (\<lambda>q. map without_id (pushed_alone clk q)) qs))"
  by (simp add: RealSarosService_generateRebalanceRecommendations_def Array_sort_by_priority
      collect_recommendations_eq generate_single generate_decomposition [of clk qs clk])

text \<open>
  C2, as stated, fails on SarosApiService: two calls on the same array under clocks that
  read differently return different lists.
\<close>

theorem api_recommendations_depend_on_clock:
  "SarosApiService_generateRebalanceRecommendations (ticking_clock 1000)
     [Some example_position] \<noteq>
   SarosApiService_generateRebalanceRecommendations (ticking_clock 2000)
     [Some example_position]"
  by (simp add: api_example_defs api_engine_defs)

text \<open>
  C2, amended. Two calls of SarosApiService.generateRebalanceRecommendations on the same
  position array, under any two clocks, have the same outcome up to \<open>id\<close>: either both are
  rejected with the same exception, or both return lists with the same elements in the
  same order, equal in every field other than \<open>id\<close>, which embeds the reading of
  \<open>Date.now()\<close>.
\<close>

theorem api_recommendations_equal_up_to_id:
  "map_sum id (map without_id) (SarosApiService_generateRebalanceRecommendations clk1 elements) =
   map_sum id (map without_id) (SarosApiService_generateRebalanceRecommendations clk2 elements)"
proof (cases "None \<in> set elements")
  case True
  then show ?thesis
    by (simp add: SarosApiService_generateRebalanceRecommendations_def for_positions_null)
next
  case False
  then have "map Some (map the elements) = elements"
    by (induction elements) auto
  then show ?thesis
    using generate_decomposition [of clk1 "map the elements" clk2]
      generate_decomposition [of clk2 "map the elements" clk2]
    by simp
qed

text \<open>
  C6. A single position whose resolved active bin lies outside its range, whose unclaimed
  fees exceed 50 and whose profit percentage is below -10 yields exactly three
  recommendations, for that position: rebalance with priority high, expand with priority
  medium, exit with priority high.
\<close>

theorem three_rules_fire:
  assumes "findActiveBin (binDistribution p) = Inr a"
    and "a < lowerBinId p \<or> a > upperBinId p"
    and "unclaimedFees p = JNumber f" and "js_gt f (Fin 50)"
    and "pnlPercentage p = JNumber l" and "js_lt l (Fin (- 10))"
  shows "map_sum id (map (\<lambda>r. (positionId r, rec_type r, priority r)))
           (SarosApiService_generateRebalanceRecommendations clk [Some p]) =
         Inr [(position_id p, Rebalance, High), (position_id p, Expand, Medium),
              (position_id p, Exit, High)]"
  using assms
  by (auto simp add: generate_single pushed_alone_def initial_state_def api_engine_defs)

theorem three_rules_fire_witness:
  "findActiveBin (binDistribution example_position) = Inr 50 \<and>
   (50 < lowerBinId example_position \<or> 50 > upperBinId example_position) \<and>
   unclaimedFees example_position = JNumber (Fin 75) \<and> js_gt (Fin 75) (Fin 50) \<and>
   pnlPercentage example_position = JNumber (Fin (- 15)) \<and> js_lt (Fin (- 15)) (Fin (- 10)) \<and>
   map_sum id (map (\<lambda>r. (positionId r, rec_type r, priority r)))
     (SarosApiService_generateRebalanceRecommendations (ticking_clock 1000)
        [Some example_position]) =
   Inr [(''p1'', Rebalance, High), (''p1'', Expand, Medium), (''p1'', Exit, High)]"
  using three_rules_fire [of example_position 50 "Fin 75" "Fin (- 15)" "ticking_clock 1000"]
  by (simp add: example_position_def bin50_def findActiveBin_def js_gt_def)

text \<open>
  C8, as stated, fails in two ways. When the exception is raised after a recommendation
  has been pushed, the recommendation stays: with fees delivered as text, \<open>toFixed\<close>
  raises in the fee rule, and the rebalance recommendation of the same position is in the
  result. And when an element of the array is \<open>null\<close>, the handler raises on its \<open>id\<close>
  and the call is rejected, the positions around it notwithstanding.
\<close>

theorem failing_position_keeps_recommendation:
  "snd (try_block (ticking_clock 1000) (Some text_fees_position) initial_state) =
     Some (TypeError ''toFixed'') \<and>
   map_sum id (map rec_type)
     (SarosApiService_generateRebalanceRecommendations (ticking_clock 1000)
        [Some text_fees_position]) = Inr [Rebalance] \<and>
   SarosApiService_generateRebalanceRecommendations (ticking_clock 1000)
     [Some example_position, None, Some example_position] = Inl (TypeError ''id'')"
  by (simp add: api_example_defs api_engine_defs for_positions_null)

text \<open>
  C8, amended. For every array of position objects (no element \<open>null\<close> or \<open>undefined\<close>) and
  every position of it on which evaluating the rules raises an exception, the exception
  is caught for that position and logged with the position's id, and the call resolves.
  Its result is, up to the clock reading in \<open>id\<close>, what the positions before the failing
  one yield alone, then what the failing position had pushed when the exception was
  raised, then what the positions after it yield alone. When the exception is raised
  while resolving the active bin (a malformed bin distribution), the failing position has
  pushed nothing and the result is exactly that of the array without it.
\<close>

theorem exception_isolated:
  assumes "snd (try_block clk (Some p) initial_state) = Some e"
  shows "(\<exists>s. for_positions clk (map Some (ps1 @ p # ps2)) initial_state = Inr s \<and>
              log_entry p e \<in> set (console s) \<and>
              SarosApiService_generateRebalanceRecommendations clk (map Some (ps1 @ p # ps2)) =
                Inr (recommendations s) \<and>
              map without_id (recommendations s) =
                concat (map (\<lambda>q. map without_id (pushed_alone clk q)) ps1) @
                map without_id (pushed_alone clk p) @
                concat (map (\<lambda>q. map without_id (pushed_alone clk q)) ps2)) \<and>
         (\<forall>q. SarosApiService_generateRebalanceRecommendations clk [Some q] =
                Inr (pushed_alone clk q)) \<and>
         (findActiveBin (binDistribution p) = Inl e \<longrightarrow>
            pushed_alone clk p = [] \<and>
            SarosApiService_generateRebalanceRecommendations clk (map Some (ps1 @ p # ps2)) =
              SarosApiService_generateRebalanceRecommendations clk (map Some (ps1 @ ps2)))"
proof (intro conjI impI allI)
  let ?s = "object_loop clk (ps1 @ p # ps2) initial_state"
  have "for_positions clk (map Some (ps1 @ p # ps2)) initial_state = Inr ?s"
    by (rule for_positions_objects)
  moreover have "log_entry p e \<in> set (console ?s)"
    using assms by (rule object_loop_logs)
  moreover have
    "SarosApiService_generateRebalanceRecommendations clk (map Some (ps1 @ p # ps2)) =
       Inr (recommendations ?s)"
    by (rule generate_objects)
  moreover have "map without_id (recommendations ?s) =
      concat (map (\<lambda>q. map without_id (pushed_alone clk q)) ps1) @
      map without_id (pushed_alone clk p) @
      concat (map (\<lambda>q. map without_id (pushed_alone clk q)) ps2)"
    using object_loop_recs [of clk "ps1 @ p # ps2" initial_state clk]
    by (simp add: initial_state_def)
  ultimately show "\<exists>s. for_positions clk (map Some (ps1 @ p # ps2)) initial_state = Inr s \<and>
      log_entry p e \<in> set (console s) \<and>
      SarosApiService_generateRebalanceRecommendations clk (map Some (ps1 @ p # ps2)) =
        Inr (recommendations s) \<and>
      map without_id (recommendations s) =
        concat (map (\<lambda>q. map without_id (pushed_alone clk q)) ps1) @
        map without_id (pushed_alone clk p) @
        concat (map (\<lambda>q. map without_id (pushed_alone clk q)) ps2)"
    by blast
next
  fix q
  show "SarosApiService_generateRebalanceRecommendations clk [Some q] = Inr (pushed_alone clk q)"
    by (rule generate_single)
next
  assume raised: "findActiveBin (binDistribution p) = Inl e"
  then show "pushed_alone clk p = []"
    by (simp add: pushed_alone_def try_block_raises_at_findActiveBin initial_state_def)
  from raised
  show "SarosApiService_generateRebalanceRecommendations clk (map Some (ps1 @ p # ps2)) =
          SarosApiService_generateRebalanceRecommendations clk (map Some (ps1 @ ps2))"
    by (rule generate_without_failing_position)
qed

theorem exception_isolated_witness:
  "snd (try_block (ticking_clock 1000) (Some no_distribution_position) initial_state) =
     Some (TypeError ''length'') \<and>
   findActiveBin (binDistribution no_distribution_position) = Inl (TypeError ''length'') \<and>
   (\<exists>s. for_positions (ticking_clock 1000)
          (map Some ([example_position] @ no_distribution_position # [text_fees_position]))
          initial_state = Inr s \<and>
        log_entry no_distribution_position (TypeError ''length'') \<in> set (console s) \<and>
        SarosApiService_generateRebalanceRecommendations (ticking_clock 1000)
          (map Some ([example_position] @ no_distribution_position # [text_fees_position])) =
          Inr (recommendations s) \<and>
        map without_id (recommendations s) =
          concat (map (\<lambda>q. map without_id (pushed_alone (ticking_clock 1000) q))
                    [example_position]) @
          map without_id (pushed_alone (ticking_clock 1000) no_distribution_position) @
          concat (map (\<lambda>q. map without_id (pushed_alone (ticking_clock 1000) q))
                    [text_fees_position])) \<and>
   pushed_alone (ticking_clock 1000) no_distribution_position = [] \<and>
   SarosApiService_generateRebalanceRecommendations (ticking_clock 1000)
     (map Some ([example_position] @ no_distribution_position # [text_fees_position])) =
   SarosApiService_generateRebalanceRecommendations (ticking_clock 1000)
     (map Some ([example_position] @ [text_fees_position]))"
proof -
  have raised:
    "snd (try_block (ticking_clock 1000) (Some no_distribution_position) initial_state) =
       Some (TypeError ''length'')"
    by (simp add: no_distribution_position_def try_block_def findActiveBin_def)
  have malformed:
    "findActiveBin (binDistribution no_distribution_position) = Inl (TypeError ''length'')"
    by (simp add: no_distribution_position_def findActiveBin_def)
  from exception_isolated [OF raised, of "[example_position]" "[text_fees_position]"]
    raised malformed
  show ?thesis by blast
qed

section \<open>Properties of the strategy simulators\<close>

text \<open>
  C7, as stated, fails on a strategy name that is not a profile but is a property every
  object inherits: the lookup finds the inherited function, no read raises, and the
  simulator returns a result whose figures are \<open>undefined\<close> or \<open>NaN\<close>.
\<close>

theorem inherited_name_is_simulated:
  "SarosApiService_simulateStrategy mock_position ''toString'' None =
     Inr \<lparr>sim_strategy = ''toString'', sim_expectedReturn = JUndefined, sim_risk = JUndefined,
          timeHorizon = ''30d'', confidence = Fin (75 / 100), sim_riskScore = JUndefined,
          details = \<lparr>feesProjected = NaN, ilProjected = Fin (2 / 100),
                     capitalEfficiency = Fin (6 / 10)\<rparr>\<rparr>"
  by (simp add: SarosApiService_simulateStrategy_def SarosApiService_strategyConfigs_def
      Object_prototype_properties_def)

text \<open>
  C7, amended. For every position and every strategy name that is neither one of the
  known profiles nor the name of a property inherited from \<open>Object.prototype\<close>, the
  simulator fails and the failure reaches the caller; no default profile is substituted.
  There is no dedicated error: SarosApiService fails with the \<open>TypeError\<close> of reading
  \<open>expectedReturn\<close> of \<open>undefined\<close>, RealSarosService wraps the \<open>TypeError\<close> of reading
  \<open>expectedAPY\<close> in an \<open>Error\<close> "Strategy simulation failed".
\<close>

theorem unknown_strategy_fails:
  assumes "name \<notin> set Object_prototype_properties"
  shows "(name \<notin> {''narrow'', ''wide'', ''balanced''} \<longrightarrow>
            SarosApiService_simulateStrategy p name t = Inl (TypeError ''expectedReturn'')) \<and>
         (name \<notin> {''conservative'', ''balanced'', ''aggressive''} \<longrightarrow>
            RealSarosService_simulateStrategy random p name t =
              Inl (Error ''Strategy simulation failed: '' (TypeError ''expectedAPY'')))"
  using assms
  by (simp add: SarosApiService_simulateStrategy_def SarosApiService_strategyConfigs_def
      RealSarosService_simulateStrategy_def simulate_try_block_def
      RealSarosService_strategyConfigs_def Let_def)

theorem unknown_strategy_fails_witness:
  "''aggressive'' \<notin> set Object_prototype_properties \<and>
   ''aggressive'' \<notin> {''narrow'', ''wide'', ''balanced''} \<and>
   SarosApiService_simulateStrategy mock_position ''aggressive'' None =
     Inl (TypeError ''expectedReturn'') \<and>
   ''narrow'' \<notin> set Object_prototype_properties \<and>
   ''narrow'' \<notin> {''conservative'', ''balanced'', ''aggressive''} \<and>
   RealSarosService_simulateStrategy (1 / 2) mock_position ''narrow'' None =
     Inl (Error ''Strategy simulation failed: '' (TypeError ''expectedAPY''))"
  using unknown_strategy_fails [of "''aggressive''" mock_position None "1 / 2"]
    unknown_strategy_fails [of "''narrow''" mock_position None "1 / 2"]
  by (simp add: Object_prototype_properties_def)

section \<open>Properties of the conversion and of the aggregation\<close>

lemmas conversion_defs =
  convertPoolPositionsToPositions_def convertPoolPosition_def getTokenSymbol_def tokenMap_def
  getBinDistributionForPosition_def empty_pool_position_def mintless_pool_position_def
  js_sub_def Let_def

text \<open>
  A pool position without mint addresses is skipped, and a \<open>null\<close> element rejects the
  call: neither produces a position.
\<close>

lemma mintless_pool_position_skipped:
  "convertPoolPositionsToPositions [Some mintless_pool_position] None = Inr [] \<and>
   convertPoolPositionsToPositions [None] None = Inl (TypeError ''pair_id'')"
  by (simp add: conversion_defs)

text \<open>
  C9. The conversion divides by \<open>total_liquidity\<close> without a guard. The fully withdrawn
  pool position, mint addresses given, is converted to one position; its denominator
  \<open>currentValue - pnl\<close> is zero and its \<open>pnlPercentage\<close> is \<open>NaN\<close>, where the claim
  requires 0. On the same position the aggregation, which guards the same formula for the
  portfolio, returns 0.
\<close>

theorem pnlPercentage_unguarded:
  "map_sum id
     (map (\<lambda>position. (js_sub (currentValue position) (pnl position), pnlPercentage position)))
     (convertPoolPositionsToPositions [Some empty_pool_position] None) =
     Inr [(Fin 0, NaN)] \<and>
   map_sum id (\<lambda>positions. totalPnLPercentage (calculatePortfolioData positions))
     (convertPoolPositionsToPositions [Some empty_pool_position] None) =
     Inr (Some (Fin 0))"
  by (simp add: conversion_defs calculatePortfolioData_def reduce_sum_def)

lemma reduce_sum_Nil [simp]: "reduce_sum f [] = Fin 0"
  by (simp add: reduce_sum_def)

text \<open>
  C10. For the empty position list both aggregations return 0 for the average APR or APY
  and 0 for every summed total. For every other list the average is the quotient of the
  sum by the length of the list, and that divisor is not zero: on no input list does the
  division take its zero-divisor branch.
\<close>

theorem average_guarded:
  "avgApy (calculatePortfolioData []) = Fin 0 \<and>
   summary (calculatePortfolioData []) =
     Some \<lparr>totalActivePositions = 0, totalUnclaimedFees = Fin 0, averageAPR = Fin 0\<rparr> \<and>
   totalValue (calculatePortfolioData []) = Fin 0 \<and>
   totalFeesEarned (calculatePortfolioData []) = Fin 0 \<and>
   totalPnL (calculatePortfolioData []) = Some (Fin 0) \<and>
   totalPnLPercentage (calculatePortfolioData []) = Some (Fin 0) \<and>
   avgApy (RealSarosService_getPortfolioData [] pd) = Fin 0 \<and>
   totalValue (RealSarosService_getPortfolioData [] pd) = Fin 0 \<and>
   totalFeesEarned (RealSarosService_getPortfolioData [] pd) = Fin 0 \<and>
   totalIL (RealSarosService_getPortfolioData [] pd) = Some (Fin 0) \<and>
   avgApy (calculatePortfolioData (p # ps)) =
     js_div (reduce_sum apr (p # ps)) (num_of_nat (length (p # ps))) \<and>
   map_option averageAPR (summary (calculatePortfolioData (p # ps))) =
     Some (js_div (reduce_sum apr (p # ps)) (num_of_nat (length (p # ps)))) \<and>
   avgApy (RealSarosService_getPortfolioData (p # ps) pd) =
     js_div (reduce_sum currentAPY (p # ps)) (num_of_nat (length (p # ps))) \<and>
   num_of_nat (length (p # ps)) \<noteq> Fin 0"
  by (simp add: calculatePortfolioData_def RealSarosService_getPortfolioData_def Let_def
      num_of_nat_def)

end
